theory Spec2Isabelle
  imports Main "HOL-Library.Word"
begin

section \<open>Configuration (config/config.go)\<close>

text \<open>
  Go's \<open>int\<close> is the 64-bit two's complement integer of the linux-amd64 target the
  Dockerfile builds for: arithmetic wraps, comparisons are signed. \<open>int64\<close> is the same
  width.
\<close>

type_synonym go_int = "64 word"
type_synonym go_int64 = "64 word"

subsection \<open>String-typed enumerations\<close>

type_synonym LogLevel = string
type_synonym CompressionType = string
type_synonym MetricsType = string
type_synonym BackendType = string

definition CompressionNone :: CompressionType where
  "CompressionNone = ''none''"

definition CompressionSnappy :: CompressionType where
  "CompressionSnappy = ''snappy''"

definition MetricsNone :: MetricsType where
  "MetricsNone = ''none''"


text \<open>
  Modelled from the spec: the backend type tags. Their declaration (with the \<open>Backend\<close>
  struct) is in a file of package \<open>config\<close> that is not among the sources; the five tags
  are the ones \<open>newBaseBackend\<close> switches over, each named after its storage engine, and
  \<open>setConfigDefaults\<close> stores \<open>"memory"\<close> under \<open>backend.type\<close>.
\<close>

definition BackendAerospike :: BackendType where
  "BackendAerospike = ''aerospike''"

definition BackendCassandra :: BackendType where
  "BackendCassandra = ''cassandra''"

definition BackendMemcache :: BackendType where
  "BackendMemcache = ''memcache''"

definition BackendMemory :: BackendType where
  "BackendMemory = ''memory''"

definition BackendRedis :: BackendType where
  "BackendRedis = ''redis''"

text \<open>
  Modelled from the spec: \<open>utils.CASSANDRA_DEFAULT_TTL_SECONDS\<close>, the hard-coded legacy
  ceiling of 2400 seconds (package \<open>utils\<close> is not among the sources).
\<close>

definition CASSANDRA_DEFAULT_TTL_SECONDS :: go_int where
  "CASSANDRA_DEFAULT_TTL_SECONDS = 2400"

subsection \<open>Structs\<close>

record Log =
  Level :: LogLevel

record RateLimiting =
  Enabled :: bool
  MaxRequestsPerSecond :: go_int64

record RequestLimits =
  MaxSize :: go_int
  MaxNumValues :: go_int
  MaxTTLSeconds :: go_int
  AllowSettingKeys :: bool

record Compression =
  Compression_Type :: CompressionType

record InfluxMetrics =
  Influx_Enabled :: bool
  Influx_Host :: string
  Database :: string
  Measurement :: string
  Username :: string
  Password :: string
  AlignTimestamps :: bool

record PrometheusMetrics =
  Prometheus_Port :: go_int
  Namespace :: string
  Subsystem :: string
  TimeoutMillisRaw :: go_int
  Prometheus_Enabled :: bool

record Metrics =
  Metrics_Type :: MetricsType
  Influx :: InfluxMetrics
  Prometheus :: PrometheusMetrics

record Routes =
  AllowPublicWrite :: bool

text \<open>
  Modelled from the spec: the \<open>Backend\<close> struct and its per-engine substructures, declared
  beside the backend type tags. The fields are the ones the sources read
  (\<open>cfg.Backend.Type\<close>, \<open>cfg.Backend.Aerospike.DefaultTTLSecs\<close>,
  \<open>cfg.Backend.Redis.ExpirationMinutes\<close>) and, for the substructures that are only handed
  on to a constructor, the settings \<open>setConfigDefaults\<close> registers for them.
\<close>

record Aerospike =
  DefaultTTLSecs :: go_int

record Cassandra =
  Cassandra_Hosts :: string
  Keyspace :: string

record Memcache =
  Memcache_Hosts :: "string list"

record Redis =
  ExpirationMinutes :: go_int

record Backend =
  Backend_Type :: BackendType
  Aerospike :: Aerospike
  Cassandra :: Cassandra
  Memcache :: Memcache
  Redis :: Redis

record Configuration =
  Port :: go_int
  AdminPort :: go_int
  IndexResponse :: string
  Log :: Log
  RateLimiting :: RateLimiting
  RequestLimits :: RequestLimits
  StatusResponse :: string
  Backend :: Backend
  Compression :: Compression
  Metrics :: Metrics
  Routes :: Routes

section \<open>The TTL ceiling resolver (backends/config/config.go)\<close>

definition getMaxTTLSeconds :: "Configuration \<Rightarrow> go_int" where
  "getMaxTTLSeconds cfg =
     (let maxTTLSeconds = MaxTTLSeconds (RequestLimits cfg) in
      if Backend_Type (Backend cfg) = BackendCassandra then
        (if CASSANDRA_DEFAULT_TTL_SECONDS <s maxTTLSeconds
         then CASSANDRA_DEFAULT_TTL_SECONDS else maxTTLSeconds)
      else if Backend_Type (Backend cfg) = BackendAerospike then
        (if 0 <s DefaultTTLSecs (Aerospike (Backend cfg))
            \<and> DefaultTTLSecs (Aerospike (Backend cfg)) <s maxTTLSeconds
         then DefaultTTLSecs (Aerospike (Backend cfg)) else maxTTLSeconds)
      else if Backend_Type (Backend cfg) = BackendRedis then
        (if 0 <s ExpirationMinutes (Redis (Backend cfg))
            \<and> ExpirationMinutes (Redis (Backend cfg)) * 60 <s maxTTLSeconds
         then ExpirationMinutes (Redis (Backend cfg)) * 60 else maxTTLSeconds)
      else maxTTLSeconds)"

text \<open>
  A configuration to start concrete examples from: the in-memory backend, snappy
  compression, no limits, every optional feature off.
\<close>

definition base_cfg :: Configuration where
  "base_cfg =
     \<lparr> Port = 2424, AdminPort = 2525, IndexResponse = ''index'',
       Log = \<lparr> Level = ''info'' \<rparr>,
       RateLimiting = \<lparr> Enabled = False, MaxRequestsPerSecond = 100 \<rparr>,
       RequestLimits = \<lparr> MaxSize = 0, MaxNumValues = 0, MaxTTLSeconds = 0,
                         AllowSettingKeys = False \<rparr>,
       StatusResponse = '''',
       Backend = \<lparr> Backend_Type = BackendMemory,
                   Aerospike = \<lparr> DefaultTTLSecs = 0 \<rparr>,
                   Cassandra = \<lparr> Cassandra_Hosts = '''', Keyspace = '''' \<rparr>,
                   Memcache = \<lparr> Memcache_Hosts = [] \<rparr>,
                   Redis = \<lparr> ExpirationMinutes = 0 \<rparr> \<rparr>,
       Compression = \<lparr> Compression_Type = CompressionSnappy \<rparr>,
       Metrics = \<lparr> Metrics_Type = MetricsNone,
                   Influx = \<lparr> Influx_Enabled = False, Influx_Host = '''', Database = '''',
                              Measurement = '''', Username = '''', Password = '''',
                              AlignTimestamps = False \<rparr>,
                   Prometheus = \<lparr> Prometheus_Port = 0, Namespace = '''', Subsystem = '''',
                                  TimeoutMillisRaw = 0, Prometheus_Enabled = False \<rparr> \<rparr>,
       Routes = \<lparr> AllowPublicWrite = True \<rparr> \<rparr>"

definition ttl_cfg :: "BackendType \<Rightarrow> go_int \<Rightarrow> go_int \<Rightarrow> go_int \<Rightarrow> Configuration" where
  "ttl_cfg t g d e =
     base_cfg \<lparr> RequestLimits := (RequestLimits base_cfg) \<lparr> MaxTTLSeconds := g \<rparr>,
                Backend := (Backend base_cfg) \<lparr> Backend_Type := t,
                              Aerospike := \<lparr> DefaultTTLSecs = d \<rparr>,
                              Redis := \<lparr> ExpirationMinutes = e \<rparr> \<rparr> \<rparr>"

section \<open>Backend construction and decoration (backends/config/config.go)\<close>

text \<open>
  \<open>log.Fatalf\<close> writes its message and ends the process. Every call of it in the modelled
  functions is a value of \<open>fatal\<close>, carrying the offending setting; a function that can
  reach one returns \<open>fatal + 'a\<close>. The \<open>panic\<close> statements after the switches are
  unreachable, since every branch before them returns or ends the process. Informational
  logging is not modelled.
\<close>

datatype fatal =
  UnknownCompressionType CompressionType
  | UnknownBackendType BackendType
  | InvalidMaxTTLSeconds go_int
  | InvalidMaxSizeBytes go_int
  | InvalidMaxNumValues go_int
  | InvalidCompressionType CompressionType
  | InfluxNoHost
  | InfluxNoDatabase
  | InfluxNoMeasurement
  | PrometheusNoPort
  | UnsupportedMetrics MetricsType
  | BackendValidationError string
  | ConstructionFailed

text \<open>
  \<open>context.WithTimeout(context.Background(), d)\<close>, with \<open>time.Duration\<close> counting
  nanoseconds.
\<close>

datatype Context = Background | WithTimeout Context go_int64

definition Millisecond :: go_int64 where
  "Millisecond = 1000000"

definition Hour :: go_int64 where
  "Hour = 3600000000000"

text \<open>
  Modelled from the spec: the storage engines of package \<open>backends\<close>, which are external
  collaborators exposing only the Get/Put contract and are not among the sources. A raw
  backend is the constructor call that made it, with the arguments the factory passed;
  \<open>'m\<close> is the type of the application metrics handle.
\<close>

datatype 'm raw_backend =
  NewCassandraBackend Cassandra
  | NewMemoryBackend
  | NewMemcacheBackend Memcache
  | NewAerospikeBackend Aerospike 'm
  | NewRedisBackend Redis Context

text \<open>
  Modelled from the spec: the wrappers of packages \<open>decorators\<close> and \<open>compression\<close> (not
  among the sources). Each one holds an inner backend and re-exposes the same contract;
  the model keeps the wrapper, its inner backend and the arguments it was built with.
\<close>

datatype ('r, 'm) backend =
  Raw 'r
  | SnappyCompress "('r, 'm) backend"
  | EnforceSizeLimit "('r, 'm) backend" go_int
  | LogMetrics "('r, 'm) backend" 'm
  | LimitTTLs "('r, 'm) backend" go_int

text \<open>
  Modelled from the spec: running an engine constructor. Construction can fail (an
  unreachable server, a timeout), and a construction failure is a fatal startup error:
  the process ends inside the constructor. Whether a given call succeeds depends on the
  world outside the program, so it is the parameter \<open>ok\<close>.
\<close>

definition construct ::
  "('m raw_backend \<Rightarrow> bool) \<Rightarrow> 'm raw_backend \<Rightarrow> fatal + ('m raw_backend, 'm) backend" where
  "construct ok call = (if ok call then Inr (Raw call) else Inl ConstructionFailed)"

definition applyCompression ::
  "Compression \<Rightarrow> ('r, 'm) backend \<Rightarrow> fatal + ('r, 'm) backend" where
  "applyCompression cfg backend =
     (if Compression_Type cfg = CompressionNone then Inr backend
      else if Compression_Type cfg = CompressionSnappy then Inr (SnappyCompress backend)
      else Inl (UnknownCompressionType (Compression_Type cfg)))"

definition DecorateBackend ::
  "Configuration \<Rightarrow> 'm \<Rightarrow> ('r, 'm) backend \<Rightarrow> fatal + ('r, 'm) backend" where
  "DecorateBackend cfg appMetrics backend =
     (case applyCompression (Compression cfg) backend of
        Inl e \<Rightarrow> Inl e
      | Inr backend1 \<Rightarrow>
          (let backend2 =
                 (if 0 <s MaxSize (RequestLimits cfg)
                  then EnforceSizeLimit backend1 (MaxSize (RequestLimits cfg))
                  else backend1);
               backend3 = LogMetrics backend2 appMetrics;
               backend4 = LimitTTLs backend3 (getMaxTTLSeconds cfg)
           in Inr backend4))"

definition newBaseBackend ::
  "('m raw_backend \<Rightarrow> bool) \<Rightarrow> Backend \<Rightarrow> 'm \<Rightarrow> fatal + ('m raw_backend, 'm) backend" where
  "newBaseBackend ok cfg appMetrics =
     (let ctx = WithTimeout Background (500 * Millisecond) in
      if Backend_Type cfg = BackendCassandra then
        construct ok (NewCassandraBackend (Cassandra cfg))
      else if Backend_Type cfg = BackendMemory then
        construct ok NewMemoryBackend
      else if Backend_Type cfg = BackendMemcache then
        construct ok (NewMemcacheBackend (Memcache cfg))
      else if Backend_Type cfg = BackendAerospike then
        construct ok (NewAerospikeBackend (Aerospike cfg) appMetrics)
      else if Backend_Type cfg = BackendRedis then
        construct ok (NewRedisBackend (Redis cfg) ctx)
      else Inl (UnknownBackendType (Backend_Type cfg)))"

definition NewBackend ::
  "('m raw_backend \<Rightarrow> bool) \<Rightarrow> Configuration \<Rightarrow> 'm
     \<Rightarrow> fatal + ('m raw_backend, 'm) backend" where
  "NewBackend ok cfg appMetrics =
     (case newBaseBackend ok (Backend cfg) appMetrics of
        Inl e \<Rightarrow> Inl e
      | Inr backend \<Rightarrow> DecorateBackend cfg appMetrics backend)"

subsection \<open>Reading a decorated backend\<close>

text \<open>
  The kinds of layer of a decorated backend, and the order in which a call passes
  through them: the outermost wrapper first, the raw backend last.
\<close>

datatype layer =
  TTLLimitingLayer | MetricsLoggingLayer | SizeLimitLayer | CompressionLayer | BackendLayer

fun layers :: "('r, 'm) backend \<Rightarrow> layer list" where
  "layers (Raw r) = [BackendLayer]"
| "layers (SnappyCompress b) = CompressionLayer # layers b"
| "layers (EnforceSizeLimit b n) = SizeLimitLayer # layers b"
| "layers (LogMetrics b m) = MetricsLoggingLayer # layers b"
| "layers (LimitTTLs b n) = TTLLimitingLayer # layers b"

text \<open>
  The order of execution as the specification words it: TTL limiting, metrics logging,
  size limiting when a positive size ceiling is configured, compression, raw backend.
\<close>

definition size_layers :: "Configuration \<Rightarrow> layer list" where
  "size_layers cfg = (if 0 <s MaxSize (RequestLimits cfg) then [SizeLimitLayer] else [])"

definition spec_layers :: "Configuration \<Rightarrow> layer list" where
  "spec_layers cfg =
     [TTLLimitingLayer, MetricsLoggingLayer] @ size_layers cfg @ [CompressionLayer, BackendLayer]"

text \<open>The context handed to a storage engine's constructor, if any.\<close>

fun constructor_context :: "'m raw_backend \<Rightarrow> Context option" where
  "constructor_context (NewCassandraBackend c) = None"
| "constructor_context NewMemoryBackend = None"
| "constructor_context (NewMemcacheBackend c) = None"
| "constructor_context (NewAerospikeBackend c m) = None"
| "constructor_context (NewRedisBackend c ctx) = Some ctx"

text \<open>The network-backed engine types: every engine but the in-memory one.\<close>

definition network_backed :: "BackendType set" where
  "network_backed = {BackendCassandra, BackendMemcache, BackendAerospike, BackendRedis}"

section \<open>Startup validation (config/config.go)\<close>









section \<open>The TTL ceiling as the specification words it\<close>

text \<open>
  The candidates of the specification, as mathematical integers: the global ceiling, and
  for a Cassandra, Aerospike or Redis deployment the legacy ceiling, the default TTL or
  the expiration in minutes times 60. The smallest non-zero candidate wins; with no
  non-zero candidate the ceiling is 0.
\<close>

definition ttl_candidates :: "Configuration \<Rightarrow> int list" where
  "ttl_candidates cfg =
     sint (MaxTTLSeconds (RequestLimits cfg)) #
     (if Backend_Type (Backend cfg) = BackendCassandra then [2400]
      else if Backend_Type (Backend cfg) = BackendAerospike
        then [sint (DefaultTTLSecs (Aerospike (Backend cfg)))]
      else if Backend_Type (Backend cfg) = BackendRedis
        then [sint (ExpirationMinutes (Redis (Backend cfg))) * 60]
      else [])"

fun minimum :: "int list \<Rightarrow> int" where
  "minimum [] = 0"
| "minimum [x] = x"
| "minimum (x # y # ys) = min x (minimum (y # ys))"

definition spec_ceiling :: "Configuration \<Rightarrow> int" where
  "spec_ceiling cfg = minimum (filter (\<lambda>c. c \<noteq> 0) (ttl_candidates cfg))"

text \<open>
  The backend's own TTL setting is usable when it is not negative and, for Redis, when
  the conversion to seconds stays within the 64-bit range.
\<close>

definition backend_ttl_in_range :: "Configuration \<Rightarrow> bool" where
  "backend_ttl_in_range cfg =
     ((Backend_Type (Backend cfg) = BackendAerospike
         \<longrightarrow> 0 \<le> sint (DefaultTTLSecs (Aerospike (Backend cfg))))
      \<and> (Backend_Type (Backend cfg) = BackendRedis
         \<longrightarrow> 0 \<le> sint (ExpirationMinutes (Redis (Backend cfg)))
             \<and> sint (ExpirationMinutes (Redis (Backend cfg))) * 60 < 2 ^ 63))"

section \<open>Routing (endpoints/routing/handler.go)\<close>

text \<open>
  Modelled from the spec: the endpoint handlers of package \<open>endpoints\<close> (not among the
  sources), each kept as the constructor call that made it. \<open>'b\<close> is the type of the data
  store the handlers are bound to, \<open>'m\<close> that of the metrics handle; the version endpoint
  is built from the build's \<open>version.Ver\<close> and \<open>version.Rev\<close>.
\<close>

datatype ('b, 'm) Handle =
  NewIndexHandler string
  | NewStatusEndpoint string
  | NewGetHandler 'b 'm bool
  | NewVersionEndpoint
  | NewPutHandler 'b 'm go_int bool

datatype HttpMethod = GET | POST

text \<open>
  An \<open>httprouter.Router\<close> is the list of its registered routes, in registration order;
  \<open>router.GET\<close> and \<open>router.POST\<close> register one route each.
\<close>

type_synonym ('b, 'm) Router = "(HttpMethod \<times> string \<times> ('b, 'm) Handle) list"

definition httprouter_New :: "('b, 'm) Router" where
  "httprouter_New = []"

definition router_GET ::
  "string \<Rightarrow> ('b, 'm) Handle \<Rightarrow> ('b, 'm) Router \<Rightarrow> ('b, 'm) Router" where
  "router_GET path h router = router @ [(GET, path, h)]"

definition router_POST ::
  "string \<Rightarrow> ('b, 'm) Handle \<Rightarrow> ('b, 'm) Router \<Rightarrow> ('b, 'm) Router" where
  "router_POST path h router = router @ [(POST, path, h)]"

record CorsOptions =
  AllowCredentials :: bool
  AllowOriginFunc :: "string \<Rightarrow> bool"

text \<open>
  A tollbooth limiter as \<open>handleRateLimiting\<close> configures it. \<open>Limiter_Max\<close> holds the
  integer that the source converts to \<open>float64\<close>.
\<close>

record Limiter =
  Limiter_Max :: go_int64
  DefaultExpirationTTL :: go_int64
  IPLookups :: "string list"
  Message :: string
  MessageContentType :: string

text \<open>An \<open>http.Handler\<close>: a router, or a middleware around an inner handler.\<close>

datatype ('b, 'm) Handler =
  RouterHandler "('b, 'm) Router"
  | CorsHandler CorsOptions "('b, 'm) Handler"
  | LimitHandler Limiter "('b, 'm) Handler"

definition addReadRoutes ::
  "Configuration \<Rightarrow> 'b \<Rightarrow> 'm \<Rightarrow> ('b, 'm) Router \<Rightarrow> ('b, 'm) Router" where
  "addReadRoutes cfg dataStore appMetrics router =
     (let router1 = router_GET ''/'' (NewIndexHandler (IndexResponse cfg)) router;
          router2 = router_GET ''/status'' (NewStatusEndpoint (StatusResponse cfg)) router1;
          router3 = router_GET ''/cache''
                      (NewGetHandler dataStore appMetrics (AllowSettingKeys (RequestLimits cfg)))
                      router2;
          router4 = router_GET ''/version'' NewVersionEndpoint router3
      in router4)"

definition addWriteRoutes ::
  "Configuration \<Rightarrow> 'b \<Rightarrow> 'm \<Rightarrow> ('b, 'm) Router \<Rightarrow> ('b, 'm) Router" where
  "addWriteRoutes cfg dataStore appMetrics router =
     router_POST ''/cache''
       (NewPutHandler dataStore appMetrics (MaxNumValues (RequestLimits cfg))
          (AllowSettingKeys (RequestLimits cfg)))
       router"

definition handleCors :: "('b, 'm) Handler \<Rightarrow> ('b, 'm) Handler" where
  "handleCors handler =
     CorsHandler \<lparr> AllowCredentials = True, AllowOriginFunc = (\<lambda>origin. True) \<rparr> handler"

definition handleRateLimiting :: "('b, 'm) Handler \<Rightarrow> RateLimiting \<Rightarrow> ('b, 'm) Handler" where
  \<open>handleRateLimiting next cfg =
     (if \<not> Enabled cfg then next
      else
        (let limit = \<lparr> Limiter_Max = MaxRequestsPerSecond cfg,
                        DefaultExpirationTTL = 1 * Hour,
                        IPLookups = [''X-Forwarded-For'', ''X-Real-IP''],
                        Message = ''{ "error": "rate limit" }'',
                        MessageContentType = ''application/json'' \<rparr>
         in LimitHandler limit next))\<close>


definition NewPublicHandler :: "Configuration \<Rightarrow> 'b \<Rightarrow> 'm \<Rightarrow> ('b, 'm) Handler" where
  "NewPublicHandler cfg dataStore appMetrics =
     (let router = httprouter_New;
          router1 = addReadRoutes cfg dataStore appMetrics router;
          router2 = (if AllowPublicWrite (Routes cfg)
                     then addWriteRoutes cfg dataStore appMetrics router1 else router1);
          handler = handleCors (RouterHandler router2);
          handler1 = handleRateLimiting handler (RateLimiting cfg)
      in handler1)"

subsection \<open>Reading a handler\<close>




fun limiters :: "('b, 'm) Handler \<Rightarrow> Limiter list" where
  "limiters (RouterHandler router) = []"
| "limiters (CorsHandler opts h) = limiters h"
| "limiters (LimitHandler limit h) = limit # limiters h"


section \<open>Configuration defaults (config/config.go)\<close>

text \<open>
  A viper instance holds settings by key in layers. The sources use three of them: the
  defaults registered with \<open>SetDefault\<close>, the values of the configuration file, and the
  overrides taken from environment variables. A lookup takes the override if there is
  one, else the file's value, else the default.
\<close>

datatype setting = IntV int | StrV string | BoolV bool | StrListV "string list"

record viper =
  viper_overrides :: "string \<rightharpoonup> setting"
  viper_config :: "string \<rightharpoonup> setting"
  viper_defaults :: "string \<rightharpoonup> setting"

definition viper_New :: viper where
  "viper_New = \<lparr> viper_overrides = Map.empty, viper_config = Map.empty,
                 viper_defaults = Map.empty \<rparr>"

text \<open>
  Viper's keys are case-insensitive: \<open>SetDefault\<close> and \<open>Get\<close> lower-case the key
  (\<open>strings.ToLower\<close>, here on the ASCII letters configuration keys are made of), and
  the layers are keyed by lower-case keys.
\<close>

definition lower_char :: "char \<Rightarrow> char" where
  "lower_char c =
     (let n = (of_char c :: nat) in if 65 \<le> n \<and> n \<le> 90 then char_of (n + 32) else c)"

definition ToLower :: "string \<Rightarrow> string" where
  "ToLower key = map lower_char key"

definition SetDefault :: "string \<Rightarrow> setting \<Rightarrow> viper \<Rightarrow> viper" where
  "SetDefault key val v =
     v \<lparr> viper_defaults := (viper_defaults v)(ToLower key \<mapsto> val) \<rparr>"

definition viper_Get :: "viper \<Rightarrow> string \<Rightarrow> setting option" where
  "viper_Get v key =
     (let lcaseKey = ToLower key in
      case viper_overrides v lcaseKey of
        Some x \<Rightarrow> Some x
      | None \<Rightarrow>
          (case viper_config v lcaseKey of
             Some x \<Rightarrow> Some x
           | None \<Rightarrow> viper_defaults v lcaseKey))"

text \<open>
  The constants of package \<open>utils\<close> (not among the sources) that \<open>setConfigDefaults\<close>
  registers and whose values the specification does not give: they are parameters.
\<close>

record utils =
  REDIS_DEFAULT_EXPIRATION_MINUTES :: int
  RATE_LIMITER_NUM_REQUESTS :: int
  REQUEST_MAX_SIZE_BYTES :: int
  REQUEST_MAX_NUM_VALUES :: int
  REQUEST_MAX_TTL_SECONDS :: int

text \<open>Some values for them, to run \<open>setConfigDefaults\<close> on a concrete input.\<close>

definition example_utils :: utils where
  "example_utils =
     \<lparr> REDIS_DEFAULT_EXPIRATION_MINUTES = 60, RATE_LIMITER_NUM_REQUESTS = 100,
       REQUEST_MAX_SIZE_BYTES = 10240, REQUEST_MAX_NUM_VALUES = 10,
       REQUEST_MAX_TTL_SECONDS = 3600 \<rparr>"

definition setConfigDefaults :: "utils \<Rightarrow> viper \<Rightarrow> viper" where
  "setConfigDefaults u v =
     fold (\<lambda>(key, val). SetDefault key val)
       [(''port'', IntV 2424),
        (''admin_port'', IntV 2525),
        (''index_response'',
           StrV ''This application stores short-term data for use in Prebid.''),
        (''status_response'', StrV []),
        (''log.level'', StrV ''info''),
        (''backend.type'', StrV ''memory''),
        (''backend.aerospike.host'', StrV []),
        (''backend.aerospike.hosts'', StrListV []),
        (''backend.aerospike.port'', IntV 0),
        (''backend.aerospike.namespace'', StrV []),
        (''backend.aerospike.user'', StrV []),
        (''backend.aerospike.password'', StrV []),
        (''backend.aerospike.default_ttl_seconds'', IntV 0),
        (''backend.aerospike.max_read_retries'', IntV 2),
        (''backend.aerospike.max_write_retries'', IntV 0),
        (''backend.aerospike.connection_idle_timeout_seconds'', IntV 0),
        (''backend.aerospike.connection_queue_size'', IntV 0),
        (''backend.cassandra.hosts'', StrV []),
        (''backend.cassandra.keyspace'', StrV []),
        (''backend.cassandra.default_ttl_seconds'',
           IntV (sint CASSANDRA_DEFAULT_TTL_SECONDS)),
        (''backend.memcache.hosts'', StrListV []),
        (''backend.redis.host'', StrV []),
        (''backend.redis.port'', IntV 0),
        (''backend.redis.password'', StrV []),
        (''backend.redis.db'', IntV 0),
        (''backend.redis.expiration'', IntV (REDIS_DEFAULT_EXPIRATION_MINUTES u)),
        (''backend.redis.tls.enabled'', BoolV False),
        (''backend.redis.tls.insecure_skip_verify'', BoolV False),
        (''compression.type'', StrV ''snappy''),
        (''metrics.influx.enabled'', BoolV False),
        (''metrics.influx.host'', StrV []),
        (''metrics.influx.database'', StrV []),
        (''metrics.influx.measurement'', StrV []),
        (''metrics.influx.username'', StrV []),
        (''metrics.influx.password'', StrV []),
        (''metrics.influx.align_timestamps'', BoolV False),
        (''metrics.prometheus.port'', IntV 0),
        (''metrics.prometheus.namespace'', StrV []),
        (''metrics.prometheus.subsystem'', StrV []),
        (''metrics.prometheus.timeout_ms'', IntV 0),
        (''metrics.prometheus.enabled'', BoolV False),
        (''rate_limiter.enabled'', BoolV True),
        (''rate_limiter.num_requests'', IntV (RATE_LIMITER_NUM_REQUESTS u)),
        (''request_limits.allow_setting_keys'', BoolV False),
        (''request_limits.max_size_bytes'', IntV (REQUEST_MAX_SIZE_BYTES u)),
        (''request_limits.max_num_values'', IntV (REQUEST_MAX_NUM_VALUES u)),
        (''request_limits.max_ttl_seconds'', IntV (REQUEST_MAX_TTL_SECONDS u)),
        (''routes.allow_public_write'', BoolV True)]
       v"

section \<open>Evaluation and helper facts\<close>

lemmas backend_tags =
  BackendAerospike_def BackendCassandra_def BackendMemcache_def BackendMemory_def
  BackendRedis_def

lemmas compression_tags = CompressionNone_def CompressionSnappy_def

lemmas ttl_eval =
  getMaxTTLSeconds_def ttl_cfg_def base_cfg_def spec_ceiling_def ttl_candidates_def
  backend_ttl_in_range_def CASSANDRA_DEFAULT_TTL_SECONDS_def backend_tags word_sless_alt
  word_sle_eq

text \<open>Multiplying minutes by 60 does not wrap when the product fits 64 signed bits.\<close>

lemma sint_times_60:
  fixes e :: go_int
  assumes "0 \<le> sint e" "sint e * 60 < 2 ^ 63"
  shows "sint (e * 60) = sint e * 60"
proof -
  have "sint (e * 60) = signed_take_bit 63 (sint e * 60)"
    by (simp add: sint_word_ariths)
  also have "\<dots> = sint e * 60"
    using assms by (intro signed_take_bit_int_eq_self) auto
  finally show ?thesis .
qed

text \<open>The resolver read as signed integers, one backend type at a time.\<close>

lemma sint_getMaxTTLSeconds_cassandra:
  assumes "Backend_Type (Backend cfg) = BackendCassandra"
  shows "sint (getMaxTTLSeconds cfg) = min (sint (MaxTTLSeconds (RequestLimits cfg))) 2400"
  using assms
  by (simp add: getMaxTTLSeconds_def Let_def CASSANDRA_DEFAULT_TTL_SECONDS_def word_sless_alt
      min_def)

lemma sint_getMaxTTLSeconds_aerospike:
  assumes "Backend_Type (Backend cfg) = BackendAerospike"
  shows "sint (getMaxTTLSeconds cfg) =
           (if 0 < sint (DefaultTTLSecs (Aerospike (Backend cfg)))
            then min (sint (MaxTTLSeconds (RequestLimits cfg)))
                     (sint (DefaultTTLSecs (Aerospike (Backend cfg))))
            else sint (MaxTTLSeconds (RequestLimits cfg)))"
  using assms
  by (simp add: getMaxTTLSeconds_def Let_def backend_tags word_sless_alt min_def)

lemma sint_getMaxTTLSeconds_redis:
  assumes "Backend_Type (Backend cfg) = BackendRedis"
    and "0 \<le> sint (ExpirationMinutes (Redis (Backend cfg)))"
    and "sint (ExpirationMinutes (Redis (Backend cfg))) * 60 < 2 ^ 63"
  shows "sint (getMaxTTLSeconds cfg) =
           (if 0 < sint (ExpirationMinutes (Redis (Backend cfg)))
            then min (sint (MaxTTLSeconds (RequestLimits cfg)))
                     (sint (ExpirationMinutes (Redis (Backend cfg))) * 60)
            else sint (MaxTTLSeconds (RequestLimits cfg)))"
  using assms
  by (simp add: getMaxTTLSeconds_def Let_def backend_tags word_sless_alt min_def
      sint_times_60)

lemma getMaxTTLSeconds_other:
  assumes "Backend_Type (Backend cfg) \<noteq> BackendCassandra"
    and "Backend_Type (Backend cfg) \<noteq> BackendAerospike"
    and "Backend_Type (Backend cfg) \<noteq> BackendRedis"
  shows "getMaxTTLSeconds cfg = MaxTTLSeconds (RequestLimits cfg)"
  using assms by (simp add: getMaxTTLSeconds_def)













text \<open>\<open>SetDefault\<close> touches the layer of defaults only.\<close>

lemma viper_defaults_fold_SetDefault:
  "viper_defaults (fold (\<lambda>(key, val). SetDefault key val) kvs v)
     = fold (\<lambda>(key, val) m. m(ToLower key \<mapsto> val)) kvs (viper_defaults v)"
  by (induction kvs arbitrary: v) (auto simp add: SetDefault_def)

lemma viper_layers_fold_SetDefault:
  "viper_overrides (fold (\<lambda>(key, val). SetDefault key val) kvs v) = viper_overrides v
   \<and> viper_config (fold (\<lambda>(key, val). SetDefault key val) kvs v) = viper_config v"
  by (induction kvs arbitrary: v) (auto simp add: SetDefault_def)

section \<open>The TTL ceiling resolver\<close>

text \<open>
  C1, as stated: for every configuration the resolved ceiling is the minimum of the
  non-zero candidates. This fails for a Cassandra deployment with the global ceiling
  unset: the only non-zero candidate is the legacy ceiling 2400, and \<open>getMaxTTLSeconds\<close>
  returns 0, since it replaces the global value only by a smaller one.
\<close>

theorem getMaxTTLSeconds_min_nonzero_counterexample:
  "sint (getMaxTTLSeconds (ttl_cfg BackendCassandra 0 0 0)) = 0
   \<and> spec_ceiling (ttl_cfg BackendCassandra 0 0 0) = 2400
   \<and> sint (getMaxTTLSeconds (ttl_cfg BackendCassandra 0 0 0))
       \<noteq> spec_ceiling (ttl_cfg BackendCassandra 0 0 0)"
  by (simp add: ttl_eval)

text \<open>
  C1, amended: for every configuration whose backend setting is in range (for
  Aerospike a default TTL that is not negative; for Redis an expiration that is not
  negative and whose product with 60 fits 64 signed bits): when the global
  \<open>request_limits.max_ttl_seconds\<close> is not zero, \<open>getMaxTTLSeconds\<close> returns the minimum
  of the non-zero candidates (the global ceiling, 2400 for Cassandra, the default TTL
  for Aerospike, the expiration times 60 for Redis); when the global ceiling is zero,
  it returns 0 whatever the value of that backend candidate.
\<close>

theorem getMaxTTLSeconds_min_nonzero_amended:
  assumes rng: "backend_ttl_in_range cfg"
  shows "(MaxTTLSeconds (RequestLimits cfg) \<noteq> 0
            \<longrightarrow> sint (getMaxTTLSeconds cfg) = spec_ceiling cfg)
       \<and> (MaxTTLSeconds (RequestLimits cfg) = 0 \<longrightarrow> getMaxTTLSeconds cfg = 0)"
proof -
  let ?g = "MaxTTLSeconds (RequestLimits cfg)"
  let ?t = "Backend_Type (Backend cfg)"
  have g0: "sint ?g = 0 \<longleftrightarrow> ?g = 0"
    by (rule signed_eq_0_iff)
  have r0: "sint (getMaxTTLSeconds cfg) = 0 \<longleftrightarrow> getMaxTTLSeconds cfg = 0"
    by (rule signed_eq_0_iff)
  consider (cassandra) "?t = BackendCassandra" | (aerospike) "?t = BackendAerospike"
    | (redis) "?t = BackendRedis"
    | (other) "?t \<noteq> BackendCassandra" "?t \<noteq> BackendAerospike" "?t \<noteq> BackendRedis"
    by blast
  then show ?thesis
  proof cases
    case cassandra
    have "sint (getMaxTTLSeconds cfg) = min (sint ?g) 2400"
      by (rule sint_getMaxTTLSeconds_cassandra [OF cassandra])
    moreover have "ttl_candidates cfg = [sint ?g, 2400]"
      using cassandra by (simp add: ttl_candidates_def)
    ultimately show ?thesis
      using g0 r0 by (auto simp add: spec_ceiling_def)
  next
    case aerospike
    have d: "0 \<le> sint (DefaultTTLSecs (Aerospike (Backend cfg)))"
      using rng aerospike by (simp add: backend_ttl_in_range_def)
    have c: "ttl_candidates cfg = [sint ?g, sint (DefaultTTLSecs (Aerospike (Backend cfg)))]"
      using aerospike by (simp add: ttl_candidates_def backend_tags)
    show ?thesis
      using g0 r0 d sint_getMaxTTLSeconds_aerospike [OF aerospike]
      by (auto simp add: spec_ceiling_def c)
  next
    case redis
    have e: "0 \<le> sint (ExpirationMinutes (Redis (Backend cfg)))"
      "sint (ExpirationMinutes (Redis (Backend cfg))) * 60 < 2 ^ 63"
      using rng redis by (simp_all add: backend_ttl_in_range_def)
    have c: "ttl_candidates cfg = [sint ?g, sint (ExpirationMinutes (Redis (Backend cfg))) * 60]"
      using redis by (simp add: ttl_candidates_def backend_tags)
    show ?thesis
      using g0 r0 e(1) sint_getMaxTTLSeconds_redis [OF redis e]
      by (auto simp add: spec_ceiling_def c)
  next
    case other
    have c: "ttl_candidates cfg = [sint ?g]"
      using other by (simp add: ttl_candidates_def)
    show ?thesis
      using g0 getMaxTTLSeconds_other [OF other]
      by (auto simp add: spec_ceiling_def c)
  qed
qed

theorem getMaxTTLSeconds_min_nonzero_amended_witness:
  "backend_ttl_in_range (ttl_cfg BackendCassandra 3000 0 0)
   \<and> MaxTTLSeconds (RequestLimits (ttl_cfg BackendCassandra 3000 0 0)) \<noteq> 0
   \<and> spec_ceiling (ttl_cfg BackendCassandra 3000 0 0) = 2400
   \<and> sint (getMaxTTLSeconds (ttl_cfg BackendCassandra 3000 0 0)) = 2400
   \<and> backend_ttl_in_range (ttl_cfg BackendAerospike 500 1000 0)
   \<and> spec_ceiling (ttl_cfg BackendAerospike 500 1000 0) = 500
   \<and> sint (getMaxTTLSeconds (ttl_cfg BackendAerospike 500 1000 0)) = 500
   \<and> backend_ttl_in_range (ttl_cfg BackendAerospike 0 1000 0)
   \<and> MaxTTLSeconds (RequestLimits (ttl_cfg BackendAerospike 0 1000 0)) = 0
   \<and> getMaxTTLSeconds (ttl_cfg BackendAerospike 0 1000 0) = 0"
proof -
  have a: "backend_ttl_in_range (ttl_cfg BackendCassandra 3000 0 0)"
    by (simp add: ttl_eval)
  have b: "backend_ttl_in_range (ttl_cfg BackendAerospike 500 1000 0)"
    by (simp add: ttl_eval)
  have c: "backend_ttl_in_range (ttl_cfg BackendAerospike 0 1000 0)"
    by (simp add: ttl_eval)
  have ga: "MaxTTLSeconds (RequestLimits (ttl_cfg BackendCassandra 3000 0 0)) \<noteq> 0"
    and gb: "MaxTTLSeconds (RequestLimits (ttl_cfg BackendAerospike 500 1000 0)) \<noteq> 0"
    and gc: "MaxTTLSeconds (RequestLimits (ttl_cfg BackendAerospike 0 1000 0)) = 0"
    by (simp_all add: ttl_cfg_def base_cfg_def)
  have sa: "spec_ceiling (ttl_cfg BackendCassandra 3000 0 0) = 2400"
    and sb: "spec_ceiling (ttl_cfg BackendAerospike 500 1000 0) = 500"
    by (simp_all add: ttl_eval)
  from getMaxTTLSeconds_min_nonzero_amended [OF a]
       getMaxTTLSeconds_min_nonzero_amended [OF b]
       getMaxTTLSeconds_min_nonzero_amended [OF c]
  show ?thesis using a b c ga gb gc sa sb by simp
qed

text \<open>
  C2, as stated: with the global ceiling unset (0) and a Redis expiration of 10 minutes
  the resolved ceiling is 600. The resolver returns 0 there: 600 is not smaller than the
  global value 0, so the global value stays.
\<close>

theorem getMaxTTLSeconds_redis_unset_global_counterexample:
  "getMaxTTLSeconds (ttl_cfg BackendRedis 0 0 10) = 0
   \<and> getMaxTTLSeconds (ttl_cfg BackendRedis 0 0 10) \<noteq> 600"
  by (simp add: ttl_eval)

text \<open>
  C2, amended: for every Redis-backed configuration whose expiration in minutes is
  positive (and whose product with 60 fits a 64-bit integer), the resolver converts it to
  seconds by multiplying by 60 and returns the smaller of that and the global ceiling,
  where a global ceiling of 0 counts as the value 0: with the global ceiling 0 the
  resolved ceiling is 0.
\<close>

theorem getMaxTTLSeconds_redis_amended:
  assumes redis: "Backend_Type (Backend cfg) = BackendRedis"
    and pos: "0 < sint (ExpirationMinutes (Redis (Backend cfg)))"
    and fits: "sint (ExpirationMinutes (Redis (Backend cfg))) * 60 < 2 ^ 63"
  shows "sint (getMaxTTLSeconds cfg) =
           min (sint (MaxTTLSeconds (RequestLimits cfg)))
               (sint (ExpirationMinutes (Redis (Backend cfg))) * 60)
         \<and> (MaxTTLSeconds (RequestLimits cfg) = 0 \<longrightarrow> getMaxTTLSeconds cfg = 0)"
proof -
  have nonneg: "0 \<le> sint (ExpirationMinutes (Redis (Backend cfg)))"
    using pos by simp
  have m: "sint (getMaxTTLSeconds cfg) =
           min (sint (MaxTTLSeconds (RequestLimits cfg)))
               (sint (ExpirationMinutes (Redis (Backend cfg))) * 60)"
    using sint_getMaxTTLSeconds_redis [OF redis nonneg fits] pos by simp
  have "getMaxTTLSeconds cfg = 0" if z: "MaxTTLSeconds (RequestLimits cfg) = 0"
  proof -
    have "sint (getMaxTTLSeconds cfg) = 0"
      using m z pos by simp
    then show ?thesis by (simp only: signed_eq_0_iff)
  qed
  with m show ?thesis by blast
qed

theorem getMaxTTLSeconds_redis_amended_witness:
  "Backend_Type (Backend (ttl_cfg BackendRedis 3600 0 10)) = BackendRedis
   \<and> 0 < sint (ExpirationMinutes (Redis (Backend (ttl_cfg BackendRedis 3600 0 10))))
   \<and> sint (ExpirationMinutes (Redis (Backend (ttl_cfg BackendRedis 3600 0 10)))) * 60 < 2 ^ 63
   \<and> sint (getMaxTTLSeconds (ttl_cfg BackendRedis 3600 0 10)) = 600"
proof -
  have t: "Backend_Type (Backend (ttl_cfg BackendRedis 3600 0 10)) = BackendRedis"
    by (simp add: ttl_cfg_def base_cfg_def)
  have e: "sint (ExpirationMinutes (Redis (Backend (ttl_cfg BackendRedis 3600 0 10)))) = 10"
    by (simp add: ttl_cfg_def base_cfg_def)
  have g: "sint (MaxTTLSeconds (RequestLimits (ttl_cfg BackendRedis 3600 0 10))) = 3600"
    by (simp add: ttl_cfg_def base_cfg_def)
  have p: "0 < sint (ExpirationMinutes (Redis (Backend (ttl_cfg BackendRedis 3600 0 10))))"
    and f: "sint (ExpirationMinutes (Redis (Backend (ttl_cfg BackendRedis 3600 0 10)))) * 60
              < 2 ^ 63"
    by (simp_all add: e)
  from getMaxTTLSeconds_redis_amended [OF t p f] show ?thesis
    using t p f by (simp add: e g)
qed

text \<open>
  C7. The resolver only tightens the global limit: whenever
  \<open>request_limits.max_ttl_seconds\<close> is positive, the resolved ceiling is at most that
  value (as signed integers), whatever the backend type and the backend's own settings.
\<close>

theorem getMaxTTLSeconds_never_loosens:
  assumes "0 <s MaxTTLSeconds (RequestLimits cfg)"
  shows "getMaxTTLSeconds cfg \<le>s MaxTTLSeconds (RequestLimits cfg)"
  by (simp add: getMaxTTLSeconds_def Let_def word_sle_eq word_sless_alt)

theorem getMaxTTLSeconds_never_loosens_witness:
  "0 <s MaxTTLSeconds (RequestLimits (ttl_cfg BackendCassandra 3000 0 0))
   \<and> getMaxTTLSeconds (ttl_cfg BackendCassandra 3000 0 0) = 2400
   \<and> getMaxTTLSeconds (ttl_cfg BackendCassandra 3000 0 0)
       \<le>s MaxTTLSeconds (RequestLimits (ttl_cfg BackendCassandra 3000 0 0))"
proof -
  have pos: "0 <s MaxTTLSeconds (RequestLimits (ttl_cfg BackendCassandra 3000 0 0))"
    by (simp add: ttl_cfg_def base_cfg_def word_sless_alt)
  have val: "getMaxTTLSeconds (ttl_cfg BackendCassandra 3000 0 0) = 2400"
    by (simp add: getMaxTTLSeconds_def ttl_cfg_def base_cfg_def
        CASSANDRA_DEFAULT_TTL_SECONDS_def backend_tags word_sless_alt)
  from pos val getMaxTTLSeconds_never_loosens [OF pos] show ?thesis by simp
qed

section \<open>Decoration\<close>

text \<open>
  C3, as stated: for every configuration the execution order is TTL limiting, metrics
  logging, size limiting (if configured), compression, raw backend. With the compression
  type \<open>none\<close>, \<open>applyCompression\<close> returns the backend as it is and the chain has no
  compression layer.
\<close>

theorem DecorateBackend_order_counterexample:
  "map_sum id layers
     (DecorateBackend (base_cfg \<lparr> Compression := \<lparr> Compression_Type = CompressionNone \<rparr> \<rparr>) ()
        (Raw (NewMemoryBackend :: unit raw_backend)))
     = Inr [TTLLimitingLayer, MetricsLoggingLayer, BackendLayer]
   \<and> spec_layers (base_cfg \<lparr> Compression := \<lparr> Compression_Type = CompressionNone \<rparr> \<rparr>)
     = [TTLLimitingLayer, MetricsLoggingLayer, CompressionLayer, BackendLayer]
   \<and> map_sum id layers
       (DecorateBackend (base_cfg \<lparr> Compression := \<lparr> Compression_Type = CompressionNone \<rparr> \<rparr>) ()
          (Raw (NewMemoryBackend :: unit raw_backend)))
     \<noteq> Inr (spec_layers
              (base_cfg \<lparr> Compression := \<lparr> Compression_Type = CompressionNone \<rparr> \<rparr>))"
  by (simp add: DecorateBackend_def applyCompression_def base_cfg_def spec_layers_def
      size_layers_def compression_tags word_sless_alt)

text \<open>
  C3, amended: \<open>DecorateBackend\<close> applies the compression step, then the size limit
  (exactly when the size ceiling is positive), then metrics logging, then TTL limiting,
  the last-applied wrapper outermost. With the compression type \<open>snappy\<close> the execution
  order, outermost first, is TTL limiting, metrics logging, size limiting (if
  configured), compression, raw backend; with the type \<open>none\<close> it is the same order
  without a compression layer; with any other type the process ends and no chain is
  built.
\<close>

theorem DecorateBackend_order_amended:
  "map_sum id layers (DecorateBackend cfg m (Raw r)) =
     (if Compression_Type (Compression cfg) = CompressionSnappy
        then Inr (spec_layers cfg)
      else if Compression_Type (Compression cfg) = CompressionNone
        then Inr ([TTLLimitingLayer, MetricsLoggingLayer] @ size_layers cfg @ [BackendLayer])
      else Inl (UnknownCompressionType (Compression_Type (Compression cfg))))"
  by (simp add: DecorateBackend_def applyCompression_def spec_layers_def size_layers_def
      Let_def compression_tags)

theorem DecorateBackend_order_amended_witness:
  "map_sum id layers
     (DecorateBackend (base_cfg \<lparr> RequestLimits := (RequestLimits base_cfg) \<lparr> MaxSize := 10 \<rparr> \<rparr>) ()
        (Raw (NewMemoryBackend :: unit raw_backend)))
     = Inr [TTLLimitingLayer, MetricsLoggingLayer, SizeLimitLayer, CompressionLayer,
            BackendLayer]"
  using DecorateBackend_order_amended
    [of "base_cfg \<lparr> RequestLimits := (RequestLimits base_cfg) \<lparr> MaxSize := 10 \<rparr> \<rparr>" "()"
        "NewMemoryBackend :: unit raw_backend"]
  by (simp add: base_cfg_def spec_layers_def size_layers_def compression_tags word_sless_alt)

text \<open>
  C9. With \<open>max_size_bytes\<close> equal to 0, the chain \<open>DecorateBackend\<close> builds around a raw
  backend has no size-limit layer, and it does build a chain whenever the compression
  type is a recognised one: writes of every size pass with no size check.
\<close>

theorem DecorateBackend_zero_size_no_SizeLimit:
  assumes "MaxSize (RequestLimits cfg) = 0"
  shows "(\<forall>d. DecorateBackend cfg m (Raw r) = Inr d \<longrightarrow> SizeLimitLayer \<notin> set (layers d))
       \<and> (Compression_Type (Compression cfg) \<in> {CompressionNone, CompressionSnappy}
            \<longrightarrow> (\<exists>d. DecorateBackend cfg m (Raw r) = Inr d))"
  using assms
  by (auto simp add: DecorateBackend_def applyCompression_def Let_def split: if_splits)

theorem DecorateBackend_zero_size_no_SizeLimit_witness:
  "MaxSize (RequestLimits base_cfg) = 0
   \<and> Compression_Type (Compression base_cfg) \<in> {CompressionNone, CompressionSnappy}
   \<and> DecorateBackend base_cfg () (Raw (NewMemoryBackend :: unit raw_backend))
       = Inr (LimitTTLs (LogMetrics (SnappyCompress (Raw NewMemoryBackend)) ()) 0)
   \<and> SizeLimitLayer
       \<notin> set (layers (LimitTTLs (LogMetrics (SnappyCompress (Raw (NewMemoryBackend :: unit raw_backend))) ()) 0))"
proof -
  have z: "MaxSize (RequestLimits base_cfg) = 0"
    by (simp add: base_cfg_def)
  have v: "DecorateBackend base_cfg () (Raw (NewMemoryBackend :: unit raw_backend))
       = Inr (LimitTTLs (LogMetrics (SnappyCompress (Raw NewMemoryBackend)) ()) 0)"
    by (simp add: DecorateBackend_def applyCompression_def base_cfg_def compression_tags
        getMaxTTLSeconds_def backend_tags)
  have c: "Compression_Type (Compression base_cfg) \<in> {CompressionNone, CompressionSnappy}"
    by (simp add: base_cfg_def)
  from DecorateBackend_zero_size_no_SizeLimit [OF z, of "()" "NewMemoryBackend :: unit raw_backend"]
  show ?thesis using z v c by simp
qed

section \<open>Fatal configuration errors\<close>




section \<open>The backend factory and its timeout context\<close>

text \<open>
  C8, as stated: the timeout context created at the start of \<open>newBaseBackend\<close> is
  supplied to the constructor of each network-backed engine. For Cassandra the
  constructor is called with the Cassandra settings alone.
\<close>

theorem newBaseBackend_context_counterexample:
  "BackendCassandra \<in> network_backed
   \<and> newBaseBackend (\<lambda>call. True) ((Backend base_cfg) \<lparr> Backend_Type := BackendCassandra \<rparr>) ()
       = Inr (Raw (NewCassandraBackend \<lparr> Cassandra_Hosts = [], Keyspace = [] \<rparr>))
   \<and> constructor_context
         (NewCassandraBackend \<lparr> Cassandra_Hosts = [], Keyspace = [] \<rparr> :: unit raw_backend)
       = None
   \<and> constructor_context
         (NewCassandraBackend \<lparr> Cassandra_Hosts = [], Keyspace = [] \<rparr> :: unit raw_backend)
       \<noteq> Some (WithTimeout Background (500 * Millisecond))"
  by (simp add: network_backed_def newBaseBackend_def construct_def base_cfg_def)

text \<open>
  C8, amended: the 500 ms timeout context created at the start of \<open>newBaseBackend\<close> is
  supplied to the constructor of the Redis engine only. For the backend type Redis the
  factory's outcome is that of the Redis constructor called with the Redis settings and
  that context; for Cassandra, Memcache and Aerospike it is that of the engine's own
  constructor called with the engine's settings (and the metrics handle for Aerospike)
  and no context.
\<close>

theorem newBaseBackend_context_amended:
  "(Backend_Type cfg = BackendRedis \<longrightarrow>
      newBaseBackend ok cfg m
        = construct ok (NewRedisBackend (Redis cfg) (WithTimeout Background (500 * Millisecond)))
      \<and> constructor_context
            (NewRedisBackend (Redis cfg) (WithTimeout Background (500 * Millisecond))
               :: 'm raw_backend)
          = Some (WithTimeout Background (500 * Millisecond)))
   \<and> (Backend_Type cfg = BackendCassandra \<longrightarrow>
      newBaseBackend ok cfg m = construct ok (NewCassandraBackend (Cassandra cfg))
      \<and> constructor_context (NewCassandraBackend (Cassandra cfg) :: 'm raw_backend) = None)
   \<and> (Backend_Type cfg = BackendMemcache \<longrightarrow>
      newBaseBackend ok cfg m = construct ok (NewMemcacheBackend (Memcache cfg))
      \<and> constructor_context (NewMemcacheBackend (Memcache cfg) :: 'm raw_backend) = None)
   \<and> (Backend_Type cfg = BackendAerospike \<longrightarrow>
      newBaseBackend ok cfg m = construct ok (NewAerospikeBackend (Aerospike cfg) m)
      \<and> constructor_context (NewAerospikeBackend (Aerospike cfg) m) = None)"
  by (simp add: newBaseBackend_def Let_def backend_tags)

theorem newBaseBackend_context_amended_witness:
  "Backend_Type ((Backend base_cfg) \<lparr> Backend_Type := BackendRedis \<rparr>) = BackendRedis
   \<and> newBaseBackend (\<lambda>call. True) ((Backend base_cfg) \<lparr> Backend_Type := BackendRedis \<rparr>) ()
       = Inr (Raw (NewRedisBackend \<lparr> ExpirationMinutes = 0 \<rparr>
                     (WithTimeout Background 500000000)))
   \<and> Backend_Type ((Backend base_cfg) \<lparr> Backend_Type := BackendMemcache \<rparr>) = BackendMemcache
   \<and> newBaseBackend (\<lambda>call. True) ((Backend base_cfg) \<lparr> Backend_Type := BackendMemcache \<rparr>) ()
       = Inr (Raw (NewMemcacheBackend \<lparr> Memcache_Hosts = [] \<rparr>))"
  using newBaseBackend_context_amended
      [of "(Backend base_cfg) \<lparr> Backend_Type := BackendRedis \<rparr>" "\<lambda>call. True" "()"]
    newBaseBackend_context_amended
      [of "(Backend base_cfg) \<lparr> Backend_Type := BackendMemcache \<rparr>" "\<lambda>call. True" "()"]
  by (simp add: construct_def base_cfg_def Millisecond_def backend_tags)

section \<open>Routing\<close>



text \<open>
  C6. With rate limiting disabled, \<open>handleRateLimiting\<close> returns the inner handler
  itself, and the public handler has no rate limiter on the way to its router.
\<close>

theorem handleRateLimiting_disabled_identity:
  assumes "\<not> Enabled (RateLimiting cfg)"
  shows "handleRateLimiting h (RateLimiting cfg) = h
       \<and> limiters (NewPublicHandler cfg ds m) = []"
  using assms
  by (simp add: handleRateLimiting_def NewPublicHandler_def Let_def handleCors_def)

theorem handleRateLimiting_disabled_identity_witness:
  "\<not> Enabled (RateLimiting base_cfg)
   \<and> handleRateLimiting (RouterHandler ([] :: (nat, unit) Router)) (RateLimiting base_cfg)
       = RouterHandler []
   \<and> limiters (NewPublicHandler base_cfg (0 :: nat) ()) = []"
proof -
  have d: "\<not> Enabled (RateLimiting base_cfg)"
    by (simp add: base_cfg_def)
  from handleRateLimiting_disabled_identity
    [OF d, of "RouterHandler ([] :: (nat, unit) Router)" "0 :: nat" "()"] d
  show ?thesis by simp
qed

section \<open>Configuration defaults\<close>

text \<open>
  C10. With no value from a configuration file and no override, the settings after
  \<open>setConfigDefaults\<close> enable rate limiting, allow public writes, select snappy
  compression and select the in-memory backend.
\<close>

theorem default_configuration:
  assumes "viper_overrides v = Map.empty" and "viper_config v = Map.empty"
  shows "viper_Get (setConfigDefaults u v) ''rate_limiter.enabled'' = Some (BoolV True)
       \<and> viper_Get (setConfigDefaults u v) ''routes.allow_public_write'' = Some (BoolV True)
       \<and> viper_Get (setConfigDefaults u v) ''compression.type'' = Some (StrV CompressionSnappy)
       \<and> viper_Get (setConfigDefaults u v) ''backend.type'' = Some (StrV BackendMemory)"
proof -
  have o: "viper_overrides (setConfigDefaults u v) = Map.empty"
    and c: "viper_config (setConfigDefaults u v) = Map.empty"
    unfolding setConfigDefaults_def using assms
    by (simp_all only: viper_layers_fold_SetDefault)
  have g: "viper_Get (setConfigDefaults u v) key
             = viper_defaults (setConfigDefaults u v) (ToLower key)" for key
    by (simp add: viper_Get_def o c)
  have l: "ToLower ''rate_limiter.enabled'' = ''rate_limiter.enabled''"
    "ToLower ''routes.allow_public_write'' = ''routes.allow_public_write''"
    "ToLower ''compression.type'' = ''compression.type''"
    "ToLower ''backend.type'' = ''backend.type''"
    by (simp_all add: ToLower_def lower_char_def)
  have 1: "viper_defaults (setConfigDefaults u v) ''rate_limiter.enabled'' = Some (BoolV True)"
    unfolding setConfigDefaults_def viper_defaults_fold_SetDefault
    by (simp add: ToLower_def lower_char_def)
  have 2: "viper_defaults (setConfigDefaults u v) ''routes.allow_public_write''
             = Some (BoolV True)"
    unfolding setConfigDefaults_def viper_defaults_fold_SetDefault
    by (simp add: ToLower_def lower_char_def)
  have 3: "viper_defaults (setConfigDefaults u v) ''compression.type''
             = Some (StrV CompressionSnappy)"
    unfolding setConfigDefaults_def viper_defaults_fold_SetDefault
    by (simp add: ToLower_def lower_char_def CompressionSnappy_def)
  have 4: "viper_defaults (setConfigDefaults u v) ''backend.type'' = Some (StrV BackendMemory)"
    unfolding setConfigDefaults_def viper_defaults_fold_SetDefault
    by (simp add: ToLower_def lower_char_def BackendMemory_def)
  from 1 2 3 4 show ?thesis by (simp add: g l)
qed

theorem default_configuration_witness:
  "viper_overrides viper_New = Map.empty \<and> viper_config viper_New = Map.empty
   \<and> viper_Get (setConfigDefaults example_utils viper_New) ''rate_limiter.enabled'' = Some (BoolV True)
   \<and> viper_Get (setConfigDefaults example_utils viper_New) ''routes.allow_public_write''
       = Some (BoolV True)
   \<and> viper_Get (setConfigDefaults example_utils viper_New) ''compression.type'' = Some (StrV ''snappy'')
   \<and> viper_Get (setConfigDefaults example_utils viper_New) ''backend.type'' = Some (StrV ''memory'')"
proof -
  have o: "viper_overrides viper_New = Map.empty" and c: "viper_config viper_New = Map.empty"
    by (simp_all add: viper_New_def)
  from default_configuration [OF o c, of example_utils] o c show ?thesis
    by (simp add: CompressionSnappy_def BackendMemory_def)
qed

end
